theory Spec2Isabelle
  imports Main
begin

section \<open>Python strings and integers\<close>

text \<open>
  Strings are lists of ASCII characters. The character classes are those of Python's
  \<^verbatim>\<open>str.isspace\<close>, \<^verbatim>\<open>\d\<close> and \<^verbatim>\<open>\w\<close> restricted to ASCII. Integers are
  unbounded, as Python's are, and a string of digits of any length converts to one.
\<close>

definition is_space :: "char \<Rightarrow> bool" where
  "is_space c = (let n = (of_char c :: nat) in (9 \<le> n \<and> n \<le> 13) \<or> (28 \<le> n \<and> n \<le> 32))"

definition is_digit :: "char \<Rightarrow> bool" where
  "is_digit c = (let n = (of_char c :: nat) in 48 \<le> n \<and> n \<le> 57)"

definition digit_char :: "nat \<Rightarrow> char" where
  "digit_char n = ''0123456789'' ! n"

definition digit_val :: "char \<Rightarrow> nat" where
  "digit_val c = of_char c - 48"

text \<open>\<^verbatim>\<open>str(n)\<close> and \<^verbatim>\<open>f"{n}"\<close> for an integer.\<close>

fun show_nat :: "nat \<Rightarrow> string" where
  "show_nat n = (if n < 10 then [digit_char n] else show_nat (n div 10) @ [digit_char (n mod 10)])"

declare show_nat.simps [simp del]

definition show_int :: "int \<Rightarrow> string" where
  "show_int i = (if i < 0 then CHR ''-'' # show_nat (nat (- i)) else show_nat (nat i))"

text \<open>The format specification \<^verbatim>\<open>:02d\<close>: zero padding to width two, the sign counted.\<close>

definition fmt02 :: "int \<Rightarrow> string" where
  "fmt02 i = (if 0 \<le> i \<and> i < 10 then CHR ''0'' # show_int i else show_int i)"

text \<open>\<^verbatim>\<open>s.zfill(2)\<close> on a string of digits.\<close>

definition zfill2 :: "string \<Rightarrow> string" where
  "zfill2 s = replicate (2 - length s) (CHR ''0'') @ s"

definition digits_val :: "string \<Rightarrow> nat" where
  "digits_val s = foldl (\<lambda>a c. 10 * a + digit_val c) 0 s"





text \<open>\<^verbatim>\<open>s.split()\<close>: the maximal runs of non-whitespace characters.\<close>

fun words_acc :: "string \<Rightarrow> string \<Rightarrow> string list" where
  "words_acc cur [] = (if cur = [] then [] else [cur])"
| "words_acc cur (c # cs) =
     (if is_space c then (if cur = [] then words_acc [] cs else cur # words_acc [] cs)
      else words_acc (cur @ [c]) cs)"

definition py_split :: "string \<Rightarrow> string list" where
  "py_split s = words_acc [] s"




section \<open>End-time calculators\<close>

text \<open>The rendering \<^verbatim>\<open>f"{hour}:{minute:02d} {ampm}"\<close> shared by both calculators.\<close>

definition fmt_time :: "int \<Rightarrow> int \<Rightarrow> string \<Rightarrow> string" where
  "fmt_time h m ap = show_int h @ '':'' @ fmt02 m @ '' '' @ ap"

text \<open>Conversion of a 12-hour hour to the 24-hour scale, as both calculators do it.\<close>

definition to_24h :: "int \<Rightarrow> string \<Rightarrow> int" where
  "to_24h hours period =
     (if period = ''PM'' \<and> hours < 12 then hours + 12
      else if period = ''AM'' \<and> hours = 12 then 0
      else hours)"

text \<open>Conversion back to the 12-hour form: the hour and the period.\<close>

definition to_12h :: "int \<Rightarrow> int \<times> string" where
  "to_12h end_hour =
     (if end_hour \<ge> 12 then (if end_hour > 12 then end_hour - 12 else end_hour, ''PM'')
      else (if end_hour = 0 then 12 else end_hour, ''AM''))"

text \<open>\<^verbatim>\<open>calculate_end_time\<close> (main.py, hour granularity), before rendering.\<close>

definition calculate_end_time_parts :: "int \<Rightarrow> int \<Rightarrow> string \<Rightarrow> int \<Rightarrow> int \<times> int \<times> string" where
  "calculate_end_time_parts start_hour start_min start_ampm duration_hours =
     (let start_hour = to_24h start_hour start_ampm;
          end_hour = start_hour + duration_hours;
          end_min = start_min;
          (end_hour, end_ampm) = to_12h end_hour
      in (end_hour, end_min, end_ampm))"

definition calculate_end_time :: "int \<Rightarrow> int \<Rightarrow> string \<Rightarrow> int \<Rightarrow> string" where
  "calculate_end_time start_hour start_min start_ampm duration_hours =
     (case calculate_end_time_parts start_hour start_min start_ampm duration_hours of
        (end_hour, end_min, end_ampm) \<Rightarrow> fmt_time end_hour end_min end_ampm)"




section \<open>Character case and substrings\<close>

definition is_upper :: "char \<Rightarrow> bool" where
  "is_upper c = (let n = (of_char c :: nat) in 65 \<le> n \<and> n \<le> 90)"

definition is_lower :: "char \<Rightarrow> bool" where
  "is_lower c = (let n = (of_char c :: nat) in 97 \<le> n \<and> n \<le> 122)"

text \<open>A letter changes case by its bit of value 32.\<close>

definition to_lower :: "char \<Rightarrow> char" where
  "to_lower c =
     (if is_upper c then (case c of Char b0 b1 b2 b3 b4 b5 b6 b7 \<Rightarrow> Char b0 b1 b2 b3 b4 True b6 b7)
      else c)"

definition to_upper :: "char \<Rightarrow> char" where
  "to_upper c =
     (if is_lower c then (case c of Char b0 b1 b2 b3 b4 b5 b6 b7 \<Rightarrow> Char b0 b1 b2 b3 b4 False b6 b7)
      else c)"

definition lower :: "string \<Rightarrow> string" where
  "lower s = map to_lower s"

definition upper :: "string \<Rightarrow> string" where
  "upper s = map to_upper s"

text \<open>\<^verbatim>\<open>s.capitalize()\<close>\<close>

definition capitalize :: "string \<Rightarrow> string" where
  "capitalize s = (case s of [] \<Rightarrow> [] | c # cs \<Rightarrow> to_upper c # lower cs)"

definition is_word :: "char \<Rightarrow> bool" where
  "is_word c = (is_digit c \<or> is_upper c \<or> is_lower c \<or> c = CHR ''_'')"

fun starts_with :: "string \<Rightarrow> string \<Rightarrow> bool" where
  "starts_with s [] = True"
| "starts_with [] (p # ps) = False"
| "starts_with (c # cs) (p # ps) = (c = p \<and> starts_with cs ps)"

text \<open>\<^verbatim>\<open>sub in s\<close>\<close>

fun contains :: "string \<Rightarrow> string \<Rightarrow> bool" where
  "contains [] sub = (sub = [])"
| "contains (c # cs) sub = (starts_with (c # cs) sub \<or> contains cs sub)"

section \<open>Regular expressions as \<^verbatim>\<open>re.search\<close> matches them\<close>

text \<open>
  The fragment of Python's regular expressions that the patterns of the program use.
  Repetition is applied to character classes only. A match is found by backtracking:
  \<open>rmatch\<close> lists, in the order in which the backtracking matcher tries them, the ways
  the expression matches a prefix of the text, each with the groups captured so far and
  the text that remains; the first element is the match Python reports.
\<close>

datatype rx =
    Lit string
  | LitI string
  | Cls "char \<Rightarrow> bool"
  | Seq rx rx
  | Alt rx rx
  | Opt rx
  | Star "char \<Rightarrow> bool"
  | LazyStar "char \<Rightarrow> bool"
  | Grp nat rx

type_synonym caps = "(nat \<times> string) list"

text \<open>The texts left by a greedy repetition of a class, the longest match first.\<close>

fun star_greedy :: "(char \<Rightarrow> bool) \<Rightarrow> string \<Rightarrow> string list" where
  "star_greedy P [] = [[]]"
| "star_greedy P (x # xs) = (if P x then star_greedy P xs @ [x # xs] else [x # xs])"

text \<open>The texts left by a lazy repetition of a class, the shortest match first.\<close>

fun star_lazy :: "(char \<Rightarrow> bool) \<Rightarrow> string \<Rightarrow> string list" where
  "star_lazy P [] = [[]]"
| "star_lazy P (x # xs) = (x # xs) # (if P x then star_lazy P xs else [])"

fun rmatch :: "rx \<Rightarrow> caps \<Rightarrow> string \<Rightarrow> (caps \<times> string) list" where
  "rmatch (Lit l) c s = (if starts_with s l then [(c, drop (length l) s)] else [])"
| "rmatch (LitI l) c s =
     (if starts_with (lower (take (length l) s)) (lower l) then [(c, drop (length l) s)] else [])"
| "rmatch (Cls P) c s = (case s of [] \<Rightarrow> [] | x # xs \<Rightarrow> if P x then [(c, xs)] else [])"
| "rmatch (Seq a b) c s = concat (map (\<lambda>(c', s'). rmatch b c' s') (rmatch a c s))"
| "rmatch (Alt a b) c s = rmatch a c s @ rmatch b c s"
| "rmatch (Opt a) c s = rmatch a c s @ [(c, s)]"
| "rmatch (Star P) c s = map (Pair c) (star_greedy P s)"
| "rmatch (LazyStar P) c s = map (Pair c) (star_lazy P s)"
| "rmatch (Grp n a) c s =
     map (\<lambda>(c', s'). ((n, take (length s - length s') s) # c', s')) (rmatch a c s)"

text \<open>\<^verbatim>\<open>re.search\<close>: the match at the leftmost position that has one.\<close>

fun re_search :: "rx \<Rightarrow> string \<Rightarrow> caps option" where
  "re_search r [] = (case rmatch r [] [] of [] \<Rightarrow> None | (c, _) # _ \<Rightarrow> Some c)"
| "re_search r (x # xs) =
     (case rmatch r [] (x # xs) of [] \<Rightarrow> re_search r xs | (c, _) # _ \<Rightarrow> Some c)"

text \<open>\<^verbatim>\<open>m.group(n)\<close>: \<open>None\<close> for a group that took no part in the match.\<close>

definition group :: "caps \<Rightarrow> nat \<Rightarrow> string option" where
  "group c n = map_of c n"

text \<open>A group that is part of every match of its pattern.\<close>

definition group_str :: "caps \<Rightarrow> nat \<Rightarrow> string" where
  "group_str c n = (case map_of c n of None \<Rightarrow> [] | Some g \<Rightarrow> g)"

definition Plus :: "(char \<Rightarrow> bool) \<Rightarrow> rx" where
  "Plus P = Seq (Cls P) (Star P)"

fun Seqs :: "rx list \<Rightarrow> rx" where
  "Seqs [] = Lit []"
| "Seqs [r] = r"
| "Seqs (r # rs) = Seq r (Seqs rs)"

fun Alts :: "rx list \<Rightarrow> rx" where
  "Alts [] = Cls (\<lambda>c. False)"
| "Alts [r] = r"
| "Alts (r # rs) = Alt r (Alts rs)"

definition any_char :: "char \<Rightarrow> bool" where
  "any_char c = (c \<noteq> CHR 0x0A)"

definition slash_or_dash :: "char \<Rightarrow> bool" where
  "slash_or_dash c = (c = CHR ''/'' \<or> c = CHR ''-'')"

section \<open>Calendar dates\<close>

text \<open>
  The reference instant \<^verbatim>\<open>datetime.now()\<close> is a parameter of every function that
  reads it; only its date takes part in the computations.
\<close>

record datetime =
  year :: int
  month :: int
  day :: int

definition is_leap :: "int \<Rightarrow> bool" where
  "is_leap y = (y mod 4 = 0 \<and> (y mod 100 \<noteq> 0 \<or> y mod 400 = 0))"

text \<open>\<^verbatim>\<open>calendar.monthrange(year, month)[1]\<close> for a month from 1 to 12.\<close>

definition last_day_of_month :: "int \<Rightarrow> int \<Rightarrow> int" where
  "last_day_of_month y m =
     [0, 31, 28, 31, 30, 31, 30, 31, 31, 30, 31, 30, 31] ! nat m
       + (if m = 2 \<and> is_leap y then 1 else 0)"


text \<open>The ordinal of a date and its weekday (Monday is 0), as \<^verbatim>\<open>datetime\<close> computes them.\<close>

definition days_before_year :: "int \<Rightarrow> int" where
  "days_before_year y' = (let y = y' - 1 in y * 365 + y div 4 - y div 100 + y div 400)"

definition days_before_month :: "int \<Rightarrow> int \<Rightarrow> int" where
  "days_before_month y m =
     [0, 0, 31, 59, 90, 120, 151, 181, 212, 243, 273, 304, 334] ! nat m
       + (if m > 2 \<and> is_leap y then 1 else 0)"

definition toordinal :: "datetime \<Rightarrow> int" where
  "toordinal d = days_before_year (year d) + days_before_month (year d) (month d) + day d"

definition weekday :: "datetime \<Rightarrow> int" where
  "weekday d = (toordinal d + 6) mod 7"

text \<open>\<^verbatim>\<open>today + timedelta(days=n)\<close> for a number of days that is not negative,
  day by day through the calendar. The end of the range of \<^verbatim>\<open>datetime\<close> (the year
  9999) is not modelled.\<close>

definition next_day :: "datetime \<Rightarrow> datetime" where
  "next_day d =
     (if day d < last_day_of_month (year d) (month d) then d\<lparr>day := day d + 1\<rparr>
      else if month d < 12 then d\<lparr>month := month d + 1, day := 1\<rparr>
      else d\<lparr>year := year d + 1, month := 1, day := 1\<rparr>)"

fun add_days :: "datetime \<Rightarrow> nat \<Rightarrow> datetime" where
  "add_days d 0 = d"
| "add_days d (Suc n) = add_days (next_day d) n"

text \<open>
  \<^verbatim>\<open>f"{year}-{month:02d}-{day:02d}"\<close>, which is also what
  \<^verbatim>\<open>strftime("%Y-%m-%d")\<close> gives for a year of four digits.
\<close>

definition fmt_ymd :: "int \<Rightarrow> int \<Rightarrow> int \<Rightarrow> string" where
  "fmt_ymd y m d = show_int y @ ''-'' @ fmt02 m @ ''-'' @ fmt02 d"

definition strftime :: "datetime \<Rightarrow> string" where
  "strftime d = fmt_ymd (year d) (month d) (day d)"

section \<open>Date resolver\<close>

definition days_of_week :: "(string \<times> int) list" where
  "days_of_week =
     [(''monday'', 0), (''mon'', 0),
      (''tuesday'', 1), (''tue'', 1), (''tues'', 1),
      (''wednesday'', 2), (''wed'', 2),
      (''thursday'', 3), (''thu'', 3), (''thurs'', 3),
      (''friday'', 4), (''fri'', 4),
      (''saturday'', 5), (''sat'', 5),
      (''sunday'', 6), (''sun'', 6)]"

definition month_names :: "(string \<times> int) list" where
  "month_names =
     [(''january'', 1), (''jan'', 1),
      (''february'', 2), (''feb'', 2),
      (''march'', 3), (''mar'', 3),
      (''april'', 4), (''apr'', 4),
      (''may'', 5),
      (''june'', 6), (''jun'', 6),
      (''july'', 7), (''jul'', 7),
      (''august'', 8), (''aug'', 8),
      (''september'', 9), (''sep'', 9), (''sept'', 9),
      (''october'', 10), (''oct'', 10),
      (''november'', 11), (''nov'', 11),
      (''december'', 12), (''dec'', 12)]"

text \<open>
  The number of days to the next occurrence of a weekday: the same weekday as today
  counts as a week ahead.
\<close>

definition days_until :: "datetime \<Rightarrow> int \<Rightarrow> int" where
  "days_until today day_num =
     (let current_day_num = weekday today;
          days_until = (day_num - current_day_num) mod 7
      in if days_until = 0 then 7 else days_until)"

text \<open>The loop over \<^verbatim>\<open>days_of_week.items()\<close>: the first name, in the order of the table,
  that occurs in the prompt decides.\<close>

fun weekday_loop :: "datetime \<Rightarrow> string \<Rightarrow> (string \<times> int) list \<Rightarrow> string option" where
  "weekday_loop today prompt_lower [] = None"
| "weekday_loop today prompt_lower ((day_name, day_num) # rest) =
     (if contains prompt_lower day_name
      then Some (strftime (add_days today (nat (days_until today day_num))))
      else weekday_loop today prompt_lower rest)"

definition next_day_pattern :: rx where
  "next_day_pattern =
     Seqs [Lit ''next'', Plus is_space,
           Grp 1 (Alts [Lit ''monday'', Lit ''tuesday'', Lit ''wednesday'', Lit ''thursday'',
                        Lit ''friday'', Lit ''saturday'', Lit ''sunday'', Lit ''mon'', Lit ''tue'',
                        Lit ''wed'', Lit ''thu'', Lit ''fri'', Lit ''sat'', Lit ''sun''])]"

definition next_day_rule :: "datetime \<Rightarrow> string \<Rightarrow> string option" where
  "next_day_rule today prompt_lower =
     (case re_search next_day_pattern prompt_lower of
        None \<Rightarrow> None
      | Some next_day_match \<Rightarrow>
          (case map_of days_of_week (group_str next_day_match 1) of
             None \<Rightarrow> None
           | Some day_num \<Rightarrow>
               Some (strftime (add_days today (nat (days_until today day_num + 7))))))"

definition month_pattern :: "string \<Rightarrow> rx" where
  "month_pattern month_name =
     Seqs [Lit month_name, Plus is_space, Grp 1 (Plus is_digit),
           Opt (Alts [Lit ''st'', Lit ''nd'', Lit ''rd'', Lit ''th''])]"

text \<open>The year a month and day resolve to: the current year, or the next one when
  the month and day lie before today's.\<close>

definition resolved_year :: "datetime \<Rightarrow> int \<Rightarrow> int \<Rightarrow> int" where
  "resolved_year today month_num d =
     (if month_num < month today \<or> (month_num = month today \<and> d < day today)
      then year today + 1 else year today)"

text \<open>The body of the loop over the months, for the day number that follows a month
  name in the prompt: \<open>None\<close> when the candidate is skipped.\<close>

definition month_day_rule :: "datetime \<Rightarrow> int \<Rightarrow> int \<Rightarrow> string option" where
  "month_day_rule today month_num d =
     (let y = resolved_year today month_num d;
          last_day = last_day_of_month y month_num
      in if 1 \<le> d \<and> d \<le> last_day then Some (fmt_ymd y month_num d) else None)"

fun month_loop :: "datetime \<Rightarrow> string \<Rightarrow> (string \<times> int) list \<Rightarrow> string option" where
  "month_loop today prompt_lower [] = None"
| "month_loop today prompt_lower ((month_name, month_num) # rest) =
     (case re_search (month_pattern month_name) prompt_lower of
        None \<Rightarrow> month_loop today prompt_lower rest
      | Some month_match \<Rightarrow>
          (case month_day_rule today month_num (int (digits_val (group_str month_match 1))) of
             None \<Rightarrow> month_loop today prompt_lower rest
           | Some r \<Rightarrow> Some r))"

definition digit12 :: rx where
  "digit12 = Seq (Cls is_digit) (Opt (Cls is_digit))"

definition date_pattern :: rx where
  "date_pattern =
     Seqs [Grp 1 digit12, Cls slash_or_dash, Grp 2 digit12,
           Opt (Seq (Cls slash_or_dash)
                    (Grp 3 (Seqs [Cls is_digit, Cls is_digit,
                                  Opt (Seq (Cls is_digit) (Opt (Cls is_digit)))])))]"

text \<open>The validation shared by the two numeric rules.\<close>

definition checked_ymd :: "int \<Rightarrow> int \<Rightarrow> int \<Rightarrow> string option" where
  "checked_ymd y m d =
     (if 1 \<le> m \<and> m \<le> 12 then
        (let last_day = last_day_of_month y m
         in if 1 \<le> d \<and> d \<le> last_day then Some (fmt_ymd y m d) else None)
      else None)"

definition numeric_rule :: "datetime \<Rightarrow> string \<Rightarrow> string option" where
  "numeric_rule today prompt =
     (case re_search date_pattern prompt of
        None \<Rightarrow> None
      | Some date_match \<Rightarrow>
          (let m = int (digits_val (group_str date_match 1));
               d = int (digits_val (group_str date_match 2));
               y = (case group date_match 3 of
                      None \<Rightarrow> year today
                    | Some year_str \<Rightarrow>
                        if length year_str = 2 then 2000 + int (digits_val year_str)
                        else int (digits_val year_str))
           in checked_ymd y m d))"

definition iso_date_pattern :: rx where
  "iso_date_pattern =
     Seqs [Grp 1 (Seqs [Cls is_digit, Cls is_digit, Cls is_digit, Cls is_digit]),
           Cls slash_or_dash, Grp 2 digit12, Cls slash_or_dash, Grp 3 digit12]"

definition iso_rule :: "string \<Rightarrow> string option" where
  "iso_rule prompt =
     (case re_search iso_date_pattern prompt of
        None \<Rightarrow> None
      | Some iso_match \<Rightarrow>
          checked_ymd (int (digits_val (group_str iso_match 1)))
            (int (digits_val (group_str iso_match 2)))
            (int (digits_val (group_str iso_match 3))))"

text \<open>
  \<^verbatim>\<open>parse_date_from_prompt\<close>, the same in the three source files. The conversion
  \<^verbatim>\<open>int(...)\<close> of a group that matched \<^verbatim>\<open>\d+\<close> cannot fail and is the value of
  its digits.
\<close>

definition parse_date_from_prompt :: "datetime \<Rightarrow> string \<Rightarrow> string" where
  "parse_date_from_prompt today prompt =
     (let prompt_lower = lower prompt in
      if contains prompt_lower ''today'' then strftime today
      else if contains prompt_lower ''tomorrow'' then strftime (add_days today 1)
      else if contains prompt_lower ''next week'' then strftime (add_days today 7)
      else case weekday_loop today prompt_lower days_of_week of
        Some r \<Rightarrow> r
      | None \<Rightarrow>
      (case next_day_rule today prompt_lower of
        Some r \<Rightarrow> r
      | None \<Rightarrow>
      (case month_loop today prompt_lower month_names of
        Some r \<Rightarrow> r
      | None \<Rightarrow>
      (case numeric_rule today prompt of
        Some r \<Rightarrow> r
      | None \<Rightarrow>
      (case iso_rule prompt of
        Some r \<Rightarrow> r
      | None \<Rightarrow> strftime (add_days today 1))))))"

section \<open>Tasks and the direct-parse path\<close>

record task =
  name :: string
  start_time :: string
  end_time :: string
  date :: string

text \<open>\<^verbatim>\<open>" ".join(words)\<close>\<close>

fun join_words :: "string list \<Rightarrow> string" where
  "join_words [] = []"
| "join_words [w] = w"
| "join_words (w # ws) = w @ '' '' @ join_words ws"

text \<open>The part \<^verbatim>\<open>(\d+):?(\d*)\s*(AM|PM|am|pm)\<close> that ends every activity pattern;
  \<open>n\<close> is the number of its first group. All of them are matched with
  \<^verbatim>\<open>re.IGNORECASE\<close>.\<close>

definition time_tail :: "nat \<Rightarrow> rx list" where
  "time_tail n =
     [Grp n (Plus is_digit), Opt (Lit '':''), Grp (n + 1) (Star is_digit), Star is_space,
      Grp (n + 2) (Alts [LitI ''AM'', LitI ''PM'', LitI ''am'', LitI ''pm''])]"

definition lunch_pattern :: rx where
  "lunch_pattern =
     Seqs ([LitI ''lunch with '', Grp 1 (Plus is_word), LazyStar any_char] @ time_tail 2)"

definition gym_pattern :: rx where
  "gym_pattern = Seqs ([LitI ''gym'', LazyStar any_char] @ time_tail 1)"

definition class_pattern :: rx where
  "class_pattern =
     Seqs ([LitI ''class'', Plus is_space, Grp 1 (Plus is_word), LazyStar any_char] @ time_tail 2)"

definition meeting_pattern :: rx where
  "meeting_pattern =
     Seqs ([LitI ''meet'', Opt (LitI ''ing''), Plus is_space, Opt (LitI ''with''), Star is_space,
            Grp 1 (Plus is_word), LazyStar any_char] @ time_tail 2)"

definition appointment_pattern :: rx where
  "appointment_pattern =
     Seqs ([Grp 1 (Alts [LitI ''appointment'', LitI ''doctor'', LitI ''dentist'', LitI ''interview'']),
            LazyStar any_char] @ time_tail 2)"

definition duration_pattern :: rx where
  "duration_pattern = Seqs [LitI ''for'', Plus is_space, Grp 1 (Plus is_digit), Plus is_space, LitI ''hour'']"

definition time_pattern :: rx where
  "time_pattern = Seqs (time_tail 1)"

text \<open>
  The task that each branch of \<^verbatim>\<open>parse_tasks_directly\<close> appends for a match whose
  time groups start at group \<open>n\<close>.
\<close>

definition timed_task :: "string \<Rightarrow> caps \<Rightarrow> nat \<Rightarrow> int \<Rightarrow> string \<Rightarrow> task" where
  "timed_task task_name m n default_duration date_str =
     (let start_hour = int (digits_val (group_str m n));
          start_min = (if group_str m (n + 1) = [] then ''00'' else group_str m (n + 1));
          start_ampm = upper (group_str m (n + 2));
          end_time = calculate_end_time start_hour (int (digits_val start_min)) start_ampm
                       default_duration
      in \<lparr>name = task_name,
          start_time = show_int start_hour @ '':'' @ zfill2 start_min @ '' '' @ start_ampm,
          end_time = end_time,
          date = date_str\<rparr>)"

definition default_duration_of :: "string \<Rightarrow> int" where
  "default_duration_of prompt =
     (case re_search duration_pattern prompt of
        None \<Rightarrow> 1
      | Some duration_match \<Rightarrow> int (digits_val (group_str duration_match 1)))"

definition lunch_tasks :: "string \<Rightarrow> int \<Rightarrow> string \<Rightarrow> task list" where
  "lunch_tasks prompt default_duration date_str =
     (case re_search lunch_pattern prompt of
        None \<Rightarrow> []
      | Some lunch_match \<Rightarrow>
          [timed_task (''Lunch with '' @ group_str lunch_match 1) lunch_match 2
             default_duration date_str])"

definition gym_tasks :: "string \<Rightarrow> int \<Rightarrow> string \<Rightarrow> task list" where
  "gym_tasks prompt default_duration date_str =
     (case re_search gym_pattern prompt of
        None \<Rightarrow> []
      | Some gym_match \<Rightarrow> [timed_task ''Gym workout'' gym_match 1 default_duration date_str])"

definition class_tasks :: "string \<Rightarrow> int \<Rightarrow> string \<Rightarrow> task list" where
  "class_tasks prompt default_duration date_str =
     (case re_search class_pattern prompt of
        None \<Rightarrow> []
      | Some class_match \<Rightarrow>
          [timed_task (''Class '' @ group_str class_match 1) class_match 2
             default_duration date_str])"

definition meeting_tasks :: "string \<Rightarrow> int \<Rightarrow> string \<Rightarrow> task list" where
  "meeting_tasks prompt default_duration date_str =
     (case re_search meeting_pattern prompt of
        None \<Rightarrow> []
      | Some meeting_match \<Rightarrow>
          [timed_task (''Meeting with '' @ group_str meeting_match 1) meeting_match 2
             default_duration date_str])"

definition appointment_tasks :: "string \<Rightarrow> int \<Rightarrow> string \<Rightarrow> task list" where
  "appointment_tasks prompt default_duration date_str =
     (case re_search appointment_pattern prompt of
        None \<Rightarrow> []
      | Some appointment_match \<Rightarrow>
          [timed_task (capitalize (group_str appointment_match 1) @ '' appointment'')
             appointment_match 2 default_duration date_str])"

text \<open>The branch \<^verbatim>\<open>if not tasks\<close>: one generic task named by the first five words.\<close>

definition generic_task :: "string \<Rightarrow> int \<Rightarrow> string \<Rightarrow> task" where
  "generic_task prompt default_duration date_str =
     (let words = py_split prompt;
          task_name = join_words (take (min 5 (length words)) words)
      in case re_search time_pattern prompt of
           Some time_match \<Rightarrow> timed_task task_name time_match 1 default_duration date_str
         | None \<Rightarrow>
             \<lparr>name = task_name,
              start_time = show_int 12 @ '':'' @ zfill2 ''00'' @ '' '' @ ''PM'',
              end_time = ''1:00 PM'',
              date = date_str\<rparr>)"

text \<open>\<^verbatim>\<open>parse_tasks_directly\<close> of main.py and main_gemini.py.\<close>

definition parse_tasks_directly :: "datetime \<Rightarrow> string \<Rightarrow> task list" where
  "parse_tasks_directly today prompt =
     (let date_str = parse_date_from_prompt today prompt;
          default_duration = default_duration_of prompt;
          tasks = lunch_tasks prompt default_duration date_str
                @ gym_tasks prompt default_duration date_str
                @ class_tasks prompt default_duration date_str
                @ meeting_tasks prompt default_duration date_str
      in if tasks = [] then [generic_task prompt default_duration date_str] else tasks)"

text \<open>\<^verbatim>\<open>parse_tasks_directly\<close> of src/main_geminiy.py, which adds the appointment
  pattern.\<close>

definition parse_tasks_directly_y :: "datetime \<Rightarrow> string \<Rightarrow> task list" where
  "parse_tasks_directly_y today prompt =
     (let date_str = parse_date_from_prompt today prompt;
          default_duration = default_duration_of prompt;
          tasks = lunch_tasks prompt default_duration date_str
                @ gym_tasks prompt default_duration date_str
                @ class_tasks prompt default_duration date_str
                @ meeting_tasks prompt default_duration date_str
                @ appointment_tasks prompt default_duration date_str
      in if tasks = [] then [generic_task prompt default_duration date_str] else tasks)"


section \<open>External hints and their normalizer\<close>










section \<open>The analyzer and the schedule orchestrators\<close>














section \<open>Rendering and parsing of times\<close>



lemma is_digit_not_space: "is_digit c \<Longrightarrow> \<not> is_space c"
  by (auto simp: is_digit_def is_space_def Let_def)






























section \<open>Evaluation of patterns\<close>

lemmas rx_eval = Plus_def is_word_def is_digit_def is_upper_def is_lower_def is_space_def
  any_char_def slash_or_dash_def lower_def to_lower_def

section \<open>The normalizer, case by case\<close>




section \<open>The month-day rule on its own\<close>

lemma month_day_rule_skip:
  "last_day_of_month (resolved_year today m d) m < d \<Longrightarrow> month_day_rule today m d = None"
  by (simp add: month_day_rule_def Let_def)

lemma month_day_rule_feb:
  "month_day_rule today 2 30 = None"
  "month_day_rule today 2 29 =
     (if is_leap (resolved_year today 2 29) then Some (fmt_ymd (resolved_year today 2 29) 2 29)
      else None)"
  by (simp_all add: month_day_rule_def last_day_of_month_def Let_def)

lemma feb_no_earlier_rule:
  "\<not> contains (lower ''Feb 30'') ''today''" "\<not> contains (lower ''Feb 30'') ''tomorrow''"
  "\<not> contains (lower ''Feb 30'') ''next week''"
  "\<not> contains (lower ''Feb 29'') ''today''" "\<not> contains (lower ''Feb 29'') ''tomorrow''"
  "\<not> contains (lower ''Feb 29'') ''next week''"
  by (simp_all add: rx_eval)

lemma weekday_loop_feb:
  "weekday_loop today (lower ''Feb 30'') days_of_week = None"
  "weekday_loop today (lower ''Feb 29'') days_of_week = None"
  by (simp_all add: days_of_week_def rx_eval)

lemma next_day_rule_feb:
  "next_day_rule today (lower ''Feb 30'') = None"
  "next_day_rule today (lower ''Feb 29'') = None"
  by (simp_all add: next_day_rule_def next_day_pattern_def rx_eval)

lemma month_loop_feb:
  "month_loop today (lower ''Feb 30'') month_names = month_day_rule today 2 30"
  "month_loop today (lower ''Feb 29'') month_names = month_day_rule today 2 29"
  by (simp_all add: month_names_def month_pattern_def rx_eval group_str_def digits_val_def
        digit_val_def month_day_rule_feb)

lemma numeric_rules_feb:
  "numeric_rule today ''Feb 30'' = None" "iso_rule ''Feb 30'' = None"
  "numeric_rule today ''Feb 29'' = None" "iso_rule ''Feb 29'' = None"
  by (simp_all add: numeric_rule_def iso_rule_def date_pattern_def digit12_def
        iso_date_pattern_def rx_eval)

lemma parse_date_feb30: "parse_date_from_prompt today ''Feb 30'' = strftime (add_days today 1)"
  by (simp add: parse_date_from_prompt_def Let_def feb_no_earlier_rule weekday_loop_feb
        next_day_rule_feb month_loop_feb month_day_rule_feb numeric_rules_feb)

lemma parse_date_feb29:
  "parse_date_from_prompt today ''Feb 29'' =
     (if is_leap (resolved_year today 2 29) then fmt_ymd (resolved_year today 2 29) 2 29
      else strftime (add_days today 1))"
  by (simp add: parse_date_from_prompt_def Let_def feb_no_earlier_rule weekday_loop_feb
        next_day_rule_feb month_loop_feb month_day_rule_feb numeric_rules_feb)

section \<open>Calendar arithmetic\<close>
















section \<open>The loop over the weekday names\<close>

lemma weekday_loop_find:
  "weekday_loop today pl tbl =
     (case find (\<lambda>(k, d). contains pl k) tbl of
        None \<Rightarrow> None
      | Some (k, d) \<Rightarrow> Some (strftime (add_days today (nat (days_until today d)))))"
  by (induction tbl) auto

lemma find_contained:
  "(k, d) \<in> set tbl \<Longrightarrow> contains pl k \<Longrightarrow>
     \<exists>k' d'. find (\<lambda>(k, d). contains pl k) tbl = Some (k', d')
            \<and> (k', d') \<in> set tbl \<and> contains pl k'"
  by (induction tbl) auto



section \<open>Prompts of whitespace only\<close>

lemma space_not_upper: "is_space c \<Longrightarrow> \<not> is_upper c"
  by (auto simp: is_space_def is_upper_def Let_def)

lemma lower_blank: "list_all is_space s \<Longrightarrow> lower s = s"
  by (induction s) (simp_all add: lower_def to_lower_def space_not_upper)

lemma starts_with_all: "starts_with s sub \<Longrightarrow> list_all P s \<Longrightarrow> list_all P sub"
  by (induction s sub rule: starts_with.induct) simp_all

lemma contains_all: "contains s sub \<Longrightarrow> list_all P s \<Longrightarrow> list_all P sub"
proof (induction s)
  case Nil
  then show ?case by simp
next
  case (Cons a s)
  show ?case
  proof (cases "starts_with (a # s) sub")
    case True
    then show ?thesis using Cons.prems(2) by (rule starts_with_all)
  next
    case False
    then show ?thesis using Cons by simp
  qed
qed

lemma contains_blank: "list_all is_space s \<Longrightarrow> \<not> list_all is_space sub \<Longrightarrow> \<not> contains s sub"
proof
  assume a: "list_all is_space s" and b: "\<not> list_all is_space sub" and c: "contains s sub"
  from c a have "list_all is_space sub" by (rule contains_all)
  with b show False by simp
qed

lemma take_all_sat: "list_all P s \<Longrightarrow> list_all P (take n s)"
proof -
  assume "list_all P s"
  then have "list_all P (take n s @ drop n s)" by simp
  then show ?thesis by (simp only: list_all_append)
qed

lemma rmatch_Lit_blank:
  assumes "list_all is_space s" "\<not> list_all is_space l"
  shows "rmatch (Lit l) c s = []"
proof -
  have "\<not> starts_with s l"
  proof
    assume "starts_with s l"
    then have "list_all is_space l" using assms(1) by (rule starts_with_all)
    with assms(2) show False by simp
  qed
  then show ?thesis by simp
qed

lemma rmatch_LitI_blank:
  assumes "list_all is_space s" "\<not> list_all is_space (lower l)"
  shows "rmatch (LitI l) c s = []"
proof -
  have t: "list_all is_space (take (length l) s)" using assms(1) by (rule take_all_sat)
  then have e: "lower (take (length l) s) = take (length l) s" by (rule lower_blank)
  have "\<not> starts_with (lower (take (length l) s)) (lower l)"
  proof
    assume "starts_with (lower (take (length l) s)) (lower l)"
    then have "starts_with (take (length l) s) (lower l)" by (simp only: e)
    then have "list_all is_space (lower l)" using t by (rule starts_with_all)
    with assms(2) show False by simp
  qed
  then show ?thesis by simp
qed

lemma rmatch_digit_blank: "list_all is_space s \<Longrightarrow> rmatch (Cls is_digit) c s = []"
  by (cases s) (auto simp: is_digit_not_space)

lemma rmatch_Seq_fail: "rmatch a c s = [] \<Longrightarrow> rmatch (Seq a b) c s = []"
  by simp

lemma rmatch_Grp_fail: "rmatch a c s = [] \<Longrightarrow> rmatch (Grp n a) c s = []"
  by simp

lemma rmatch_Alt_fail: "rmatch a c s = [] \<Longrightarrow> rmatch b c s = [] \<Longrightarrow> rmatch (Alt a b) c s = []"
  by simp

lemma rmatch_Seqs_fail: "rmatch a c s = [] \<Longrightarrow> rmatch (Seqs (a # rs)) c s = []"
  by (cases rs) simp_all

lemma rmatch_Plus_digit_blank: "list_all is_space s \<Longrightarrow> rmatch (Plus is_digit) c s = []"
  unfolding Plus_def by (rule rmatch_Seq_fail) (rule rmatch_digit_blank)

lemma re_search_blank:
  assumes "\<And>t. list_all is_space t \<Longrightarrow> rmatch r [] t = []"
  shows "list_all is_space s \<Longrightarrow> re_search r s = None"
  using assms by (induction s) auto

lemma time_tail_blank:
  "list_all is_space s \<Longrightarrow> rmatch (Seqs (time_tail n)) c s = []"
  unfolding time_tail_def
  by (rule rmatch_Seqs_fail, rule rmatch_Grp_fail, rule rmatch_Plus_digit_blank)

lemma nonblank_literals:
  "\<not> list_all is_space (lower ''lunch with '')" "\<not> list_all is_space (lower ''gym'')"
  "\<not> list_all is_space (lower ''class'')" "\<not> list_all is_space (lower ''meet'')"
  "\<not> list_all is_space (lower ''for'')" "\<not> list_all is_space ''next''"
  "\<not> list_all is_space (lower ''appointment'')" "\<not> list_all is_space (lower ''doctor'')"
  "\<not> list_all is_space (lower ''dentist'')" "\<not> list_all is_space (lower ''interview'')"
  by (simp_all add: rx_eval)

lemma lunch_blank: "list_all is_space s \<Longrightarrow> re_search lunch_pattern s = None"
  apply (erule re_search_blank [rotated])
  unfolding lunch_pattern_def append_Cons
  apply (rule rmatch_Seqs_fail)
  apply (erule rmatch_LitI_blank)
  apply (rule nonblank_literals)
  done

lemma gym_blank: "list_all is_space s \<Longrightarrow> re_search gym_pattern s = None"
  apply (erule re_search_blank [rotated])
  unfolding gym_pattern_def append_Cons
  apply (rule rmatch_Seqs_fail)
  apply (erule rmatch_LitI_blank)
  apply (rule nonblank_literals)
  done

lemma class_blank: "list_all is_space s \<Longrightarrow> re_search class_pattern s = None"
  apply (erule re_search_blank [rotated])
  unfolding class_pattern_def append_Cons
  apply (rule rmatch_Seqs_fail)
  apply (erule rmatch_LitI_blank)
  apply (rule nonblank_literals)
  done

lemma meeting_blank: "list_all is_space s \<Longrightarrow> re_search meeting_pattern s = None"
  apply (erule re_search_blank [rotated])
  unfolding meeting_pattern_def append_Cons
  apply (rule rmatch_Seqs_fail)
  apply (erule rmatch_LitI_blank)
  apply (rule nonblank_literals)
  done

lemma appointment_blank: "list_all is_space s \<Longrightarrow> re_search appointment_pattern s = None"
  apply (erule re_search_blank [rotated])
  unfolding appointment_pattern_def append_Cons Alts.simps
  apply (rule rmatch_Seqs_fail)
  apply (rule rmatch_Grp_fail)
  apply (intro rmatch_Alt_fail)
     apply (erule rmatch_LitI_blank, rule nonblank_literals)+
  done

lemma time_blank: "list_all is_space s \<Longrightarrow> re_search time_pattern s = None"
  apply (erule re_search_blank [rotated])
  unfolding time_pattern_def
  apply (erule time_tail_blank)
  done

lemma duration_blank: "list_all is_space s \<Longrightarrow> re_search duration_pattern s = None"
  apply (erule re_search_blank [rotated])
  unfolding duration_pattern_def
  apply (rule rmatch_Seqs_fail)
  apply (erule rmatch_LitI_blank)
  apply (rule nonblank_literals)
  done

lemma next_day_blank: "list_all is_space s \<Longrightarrow> re_search next_day_pattern s = None"
  apply (erule re_search_blank [rotated])
  unfolding next_day_pattern_def
  apply (rule rmatch_Seqs_fail)
  apply (erule rmatch_Lit_blank)
  apply (rule nonblank_literals)
  done

lemma date_blank: "list_all is_space s \<Longrightarrow> re_search date_pattern s = None"
  apply (erule re_search_blank [rotated])
  unfolding date_pattern_def digit12_def
  apply (rule rmatch_Seqs_fail)
  apply (rule rmatch_Grp_fail)
  apply (rule rmatch_Seq_fail)
  apply (erule rmatch_digit_blank)
  done

lemma iso_blank: "list_all is_space s \<Longrightarrow> re_search iso_date_pattern s = None"
  apply (erule re_search_blank [rotated])
  unfolding iso_date_pattern_def
  apply (rule rmatch_Seqs_fail)
  apply (rule rmatch_Grp_fail)
  apply (rule rmatch_Seqs_fail)
  apply (erule rmatch_digit_blank)
  done


lemma weekday_loop_blank:
  "list_all is_space s \<Longrightarrow> list_all (\<lambda>(k, d). \<not> list_all is_space k) tbl
     \<Longrightarrow> weekday_loop today s tbl = None"
  by (induction tbl) (auto simp: contains_blank)

lemma month_pattern_blank:
  assumes "list_all is_space s" "\<not> list_all is_space n"
  shows "re_search (month_pattern n) s = None"
  using assms(1)
  apply (rule re_search_blank [rotated])
  unfolding month_pattern_def
  apply (rule rmatch_Seqs_fail)
  apply (erule rmatch_Lit_blank)
  apply (rule assms(2))
  done

lemma month_loop_blank:
  "list_all is_space s \<Longrightarrow> list_all (\<lambda>(k, d). \<not> list_all is_space k) tbl
     \<Longrightarrow> month_loop today s tbl = None"
  by (induction tbl) (auto simp: month_pattern_blank)

lemma tables_nonblank:
  "list_all (\<lambda>(k, d). \<not> list_all is_space k) days_of_week"
  "list_all (\<lambda>(k, d). \<not> list_all is_space k) month_names"
  by (simp_all add: days_of_week_def month_names_def is_space_def)

lemma phrases_nonblank:
  "\<not> list_all is_space ''today''" "\<not> list_all is_space ''tomorrow''"
  "\<not> list_all is_space ''next week''"
  by (simp_all add: is_space_def)

lemma parse_date_blank:
  assumes "list_all is_space p"
  shows "parse_date_from_prompt today p = strftime (add_days today 1)"
proof -
  have l: "lower p = p" using assms by (rule lower_blank)
  have c: "\<not> contains p ''today''" "\<not> contains p ''tomorrow''" "\<not> contains p ''next week''"
    using assms phrases_nonblank by (simp_all add: contains_blank)
  have w: "weekday_loop today p days_of_week = None"
    using assms tables_nonblank(1) by (rule weekday_loop_blank)
  have m: "month_loop today p month_names = None"
    using assms tables_nonblank(2) by (rule month_loop_blank)
  have n: "next_day_rule today p = None"
    using assms by (simp add: next_day_rule_def next_day_blank)
  have d: "numeric_rule today p = None" "iso_rule p = None"
    using assms by (simp_all add: numeric_rule_def iso_rule_def date_blank iso_blank)
  show ?thesis
    by (simp only: parse_date_from_prompt_def Let_def l c w m n d if_False option.case)
qed

lemma py_split_blank: "list_all is_space p \<Longrightarrow> py_split p = []"
  unfolding py_split_def by (induction p) simp_all

lemma pattern_tasks_blank:
  assumes "list_all is_space p"
  shows "lunch_tasks p du ds = []" "gym_tasks p du ds = []" "class_tasks p du ds = []"
    "meeting_tasks p du ds = []" "appointment_tasks p du ds = []"
  using assms
  by (simp_all add: lunch_tasks_def gym_tasks_def class_tasks_def meeting_tasks_def
        appointment_tasks_def lunch_blank gym_blank class_blank meeting_blank appointment_blank)

lemma noon_rendering: "show_int 12 @ '':'' @ zfill2 ''00'' @ '' '' @ ''PM'' = ''12:00 PM''"
  by code_simp

lemma generic_task_blank:
  assumes "list_all is_space p"
  shows "generic_task p du ds =
           \<lparr>name = [], start_time = ''12:00 PM'', end_time = ''1:00 PM'', date = ds\<rparr>"
proof -
  have "re_search time_pattern p = None" using assms by (rule time_blank)
  moreover have "py_split p = []" using assms by (rule py_split_blank)
  ultimately show ?thesis
    by (simp only: generic_task_def Let_def noon_rendering option.case list.size take.simps
          join_words.simps min_0R)
qed

section \<open>The retry loop and the fallback extraction\<close>






















section \<open>Fields of the returned tasks\<close>










section \<open>The rule for "next <weekday>" behind the weekday loop\<close>

lemma re_search_Some_suffix:
  "re_search r s = Some c \<Longrightarrow> \<exists>k. rmatch r [] (drop k s) \<noteq> []"
proof (induction s)
  case Nil
  then show ?case by (auto split: list.splits)
next
  case (Cons x xs)
  show ?case
  proof (cases "rmatch r [] (x # xs)")
    case Nil
    then have "re_search r xs = Some c" using Cons.prems by simp
    then obtain k where "rmatch r [] (drop k xs) \<noteq> []" using Cons.IH by blast
    then have "rmatch r [] (drop (Suc k) (x # xs)) \<noteq> []" by simp
    then show ?thesis by blast
  next
    case (Cons a list)
    then have "rmatch r [] (drop 0 (x # xs)) \<noteq> []" by simp
    then show ?thesis by blast
  qed
qed

lemma starts_with_drop_contains: "starts_with (drop k s) sub \<Longrightarrow> contains s sub"
proof (induction s arbitrary: k)
  case Nil
  then show ?case by (cases sub) simp_all
next
  case (Cons a s)
  then show ?case by (cases k) auto
qed

lemma star_greedy_suffix: "t \<in> set (star_greedy P s) \<Longrightarrow> \<exists>k. t = drop k s"
proof (induction s)
  case Nil
  then show ?case by simp
next
  case (Cons a s)
  show ?case
  proof (cases "t = a # s")
    case True
    then have "t = drop 0 (a # s)" by simp
    then show ?thesis by blast
  next
    case False
    then have "t \<in> set (star_greedy P s)" using Cons.prems by (auto split: if_splits)
    then obtain k where "t = drop k s" using Cons.IH by blast
    then have "t = drop (Suc k) (a # s)" by simp
    then show ?thesis by blast
  qed
qed

lemma rmatch_Plus_suffix:
  assumes "(c', t) \<in> set (rmatch (Plus P) c s)"
  shows "\<exists>k. t = drop k s"
proof -
  obtain x xs where s: "s = x # xs" and t: "t \<in> set (star_greedy P xs)"
    using assms by (cases s) (auto simp: Plus_def split: if_splits)
  then obtain k where "t = drop k xs" using star_greedy_suffix by blast
  then have "t = drop (Suc k) s" using s by simp
  then show ?thesis by blast
qed

lemma rmatch_Lit_suffix: "(c', t) \<in> set (rmatch (Lit l) c s) \<Longrightarrow> \<exists>k. t = drop k s"
  by (auto split: if_splits)

lemma rmatch_Seq_nonempty:
  "rmatch (Seq a b) c s \<noteq> [] \<Longrightarrow> \<exists>c' t. (c', t) \<in> set (rmatch a c s) \<and> rmatch b c' t \<noteq> []"
  by auto

lemma rmatch_Alts_Lit:
  "rmatch (Alts (map Lit ns)) c s \<noteq> [] \<Longrightarrow> \<exists>n \<in> set ns. starts_with s n"
proof (induction ns)
  case Nil
  then show ?case by (cases s) simp_all
next
  case (Cons a ns)
  then show ?case by (cases ns) (auto split: if_splits)
qed


lemma next_day_pattern_shape:
  "next_day_pattern =
     Seq (Lit ''next'') (Seq (Plus is_space)
       (Grp 1 (Alts (map Lit [''monday'', ''tuesday'', ''wednesday'', ''thursday'', ''friday'',
          ''saturday'', ''sunday'', ''mon'', ''tue'', ''wed'', ''thu'', ''fri'', ''sat'', ''sun'']))))"
  by (simp add: next_day_pattern_def)

lemma next_day_names_checked:
  "list_all (\<lambda>n. map_of days_of_week n \<noteq> None)
     [''monday'', ''tuesday'', ''wednesday'', ''thursday'', ''friday'',
      ''saturday'', ''sunday'', ''mon'', ''tue'', ''wed'', ''thu'', ''fri'', ''sat'', ''sun'']"
  by code_simp

lemma next_day_names_in_table:
  assumes "n \<in> set [''monday'', ''tuesday'', ''wednesday'', ''thursday'', ''friday'',
          ''saturday'', ''sunday'', ''mon'', ''tue'', ''wed'', ''thu'', ''fri'', ''sat'', ''sun'']"
  shows "\<exists>d. (n, d) \<in> set days_of_week"
proof -
  have "map_of days_of_week n \<noteq> None"
    using next_day_names_checked assms unfolding list_all_iff by blast
  then obtain d where "map_of days_of_week n = Some d" by blast
  then have "(n, d) \<in> set days_of_week" by (rule map_of_SomeD)
  then show ?thesis by blast
qed

lemma next_day_match_name:
  assumes "rmatch next_day_pattern c s \<noteq> []"
  shows "\<exists>n d k. (n, d) \<in> set days_of_week \<and> starts_with (drop k s) n"
proof -
  let ?names = "[''monday'', ''tuesday'', ''wednesday'', ''thursday'', ''friday'',
          ''saturday'', ''sunday'', ''mon'', ''tue'', ''wed'', ''thu'', ''fri'', ''sat'', ''sun'']"
  let ?A = "Alts (map Lit ?names)"
  have "rmatch (Seq (Lit ''next'') (Seq (Plus is_space) (Grp 1 ?A))) c s \<noteq> []"
    using assms unfolding next_day_pattern_shape .
  then obtain c1 t1 where 1: "(c1, t1) \<in> set (rmatch (Lit ''next'') c s)"
    and 2: "rmatch (Seq (Plus is_space) (Grp 1 ?A)) c1 t1 \<noteq> []"
    using rmatch_Seq_nonempty by blast
  obtain k1 where t1: "t1 = drop k1 s" using rmatch_Lit_suffix [OF 1] by blast
  obtain c2 t2 where 3: "(c2, t2) \<in> set (rmatch (Plus is_space) c1 t1)"
    and 4: "rmatch (Grp 1 ?A) c2 t2 \<noteq> []"
    using rmatch_Seq_nonempty [OF 2] by blast
  obtain k where t2: "t2 = drop k t1" using rmatch_Plus_suffix [OF 3] by blast
  have "rmatch ?A c2 t2 \<noteq> []" using 4 by simp
  then obtain n where n: "n \<in> set ?names" "starts_with t2 n"
    using rmatch_Alts_Lit by blast
  obtain d where d: "(n, d) \<in> set days_of_week" using next_day_names_in_table [OF n(1)] by blast
  have "starts_with (drop (k + k1) s) n" using n(2) t1 t2 by simp
  then show ?thesis using d by blast
qed

lemma next_day_rule_shadowed:
  assumes "re_search next_day_pattern pl = Some m"
  shows "weekday_loop today pl days_of_week \<noteq> None"
proof -
  obtain j where "rmatch next_day_pattern [] (drop j pl) \<noteq> []"
    using re_search_Some_suffix [OF assms] by blast
  then obtain n d k where nd: "(n, d) \<in> set days_of_week" and "starts_with (drop k (drop j pl)) n"
    using next_day_match_name by blast
  then have "starts_with (drop (k + j) pl) n" by simp
  then have "contains pl n" by (rule starts_with_drop_contains)
  then obtain k' d' where "find (\<lambda>(k, d). contains pl k) days_of_week = Some (k', d')"
    using find_contained [OF nd] by blast
  then show ?thesis by (simp add: weekday_loop_find)
qed

section \<open>Properties of the program\<close>

subsection \<open>What the schedule operation returns\<close>




subsection \<open>Round trip of the end-time calculators\<close>




subsection \<open>The phrase "next <weekday>"\<close>

text \<open>
  C3 (the code differs). The rule for "next <weekday>", which adds the seven days, comes
  after the loop over the weekday names, and every prompt that its pattern matches
  contains a weekday name, so the loop always decides first: for every prompt and
  reference date, if the pattern of the rule matches then the loop returns a date. On
  Tuesday 2025-06-10 the prompt "next monday" resolves to Monday 2025-06-16, the plain
  next occurrence; the rule on its own would give the date the claim describes,
  2025-06-23.
\<close>

theorem next_weekday_without_extra_week:
  "(re_search next_day_pattern (lower p) \<noteq> None \<longrightarrow>
      weekday_loop today (lower p) days_of_week \<noteq> None)
   \<and> parse_date_from_prompt \<lparr>year = 2025, month = 6, day = 10\<rparr> ''next monday'' = ''2025-06-16''
   \<and> next_day_rule \<lparr>year = 2025, month = 6, day = 10\<rparr> (lower ''next monday'') = Some ''2025-06-23''"
proof -
  have "parse_date_from_prompt \<lparr>year = 2025, month = 6, day = 10\<rparr> ''next monday'' = ''2025-06-16''"
    by code_simp
  moreover have "next_day_rule \<lparr>year = 2025, month = 6, day = 10\<rparr> (lower ''next monday'')
      = Some ''2025-06-23''"
    by code_simp
  ultimately show ?thesis
    using next_day_rule_shadowed [of "lower p" _ today] by blast
qed

theorem next_weekday_without_extra_week_witness:
  "re_search next_day_pattern (lower ''next monday'') \<noteq> None
   \<and> weekday_loop \<lparr>year = 2025, month = 6, day = 10\<rparr> (lower ''next monday'') days_of_week \<noteq> None
   \<and> parse_date_from_prompt \<lparr>year = 2025, month = 6, day = 10\<rparr> ''next monday'' = ''2025-06-16''"
proof -
  have m: "re_search next_day_pattern (lower ''next monday'') \<noteq> None"
    by code_simp
  show ?thesis
    using next_weekday_without_extra_week [of "''next monday''" "\<lparr>year = 2025, month = 6, day = 10\<rparr>"] m
    by blast
qed

subsection \<open>Malformed start times\<close>




subsection \<open>When the normalizer rejects a hint\<close>




subsection \<open>Retries and fallback of the orchestrators\<close>




subsection \<open>The month-day rule\<close>

text \<open>
  C7. For every reference date, the month-day rule skips a candidate whose day number
  exceeds the length of the month in the resolved year (the current year, or the next
  one when month and day lie before today's): day 30 of February is always skipped, and
  day 29 is accepted exactly when the resolved year is a leap year. On the prompts
  "Feb 30" and "Feb 29" the resolver as a whole then falls through to its default, the
  day after the reference date, unless February 29 is accepted.
\<close>

theorem month_day_rule_rejects:
  "(last_day_of_month (resolved_year today m d) m < d \<longrightarrow> month_day_rule today m d = None)
   \<and> month_day_rule today 2 30 = None
   \<and> (month_day_rule today 2 29 \<noteq> None \<longleftrightarrow> is_leap (resolved_year today 2 29))
   \<and> parse_date_from_prompt today ''Feb 30'' = strftime (add_days today 1)
   \<and> parse_date_from_prompt today ''Feb 29'' =
       (if is_leap (resolved_year today 2 29) then fmt_ymd (resolved_year today 2 29) 2 29
        else strftime (add_days today 1))"
  using month_day_rule_skip [of today m d]
  by (simp add: month_day_rule_feb parse_date_feb30 parse_date_feb29)

theorem month_day_rule_rejects_witness:
  "month_day_rule \<lparr>year = 2027, month = 6, day = 10\<rparr> 4 31 = None
   \<and> parse_date_from_prompt \<lparr>year = 2027, month = 6, day = 10\<rparr> ''Feb 30'' = ''2027-06-11''
   \<and> parse_date_from_prompt \<lparr>year = 2027, month = 6, day = 10\<rparr> ''Feb 29'' = ''2028-02-29''
   \<and> parse_date_from_prompt \<lparr>year = 2025, month = 6, day = 10\<rparr> ''Feb 29'' = ''2025-06-11''"
proof -
  let ?a = "\<lparr>year = 2027, month = 6, day = 10\<rparr>" and ?b = "\<lparr>year = 2025, month = 6, day = 10\<rparr>"
  have l: "last_day_of_month (resolved_year ?a 4 31) 4 < 31" by code_simp
  have ya: "resolved_year ?a 2 29 = 2028" "is_leap 2028" by code_simp+
  have yb: "resolved_year ?b 2 29 = 2026" "\<not> is_leap 2026" by code_simp+
  have f: "fmt_ymd 2028 2 29 = ''2028-02-29''" by code_simp
  have t: "strftime (next_day ?a) = ''2027-06-11''" "strftime (next_day ?b) = ''2025-06-11''"
    by code_simp+
  show ?thesis
    using month_day_rule_rejects [of ?a 4 31] month_day_rule_rejects [of ?b 4 31]
    by (simp add: l ya yb f t)
qed

subsection \<open>The date of a hint\<close>



subsection \<open>Weekday names inside words\<close>



subsection \<open>Blank prompts\<close>

text \<open>
  C10. For the empty prompt and for every prompt of whitespace only, the direct-parse
  path (with or without the appointment pattern) returns exactly one task: its name is
  the empty string, it starts at "12:00 PM" and ends at "1:00 PM", and its date is the
  day after the reference date.
\<close>

theorem blank_prompt_generic_task:
  assumes "list_all is_space p"
  shows "parse_tasks_directly today p =
           [\<lparr>name = [], start_time = ''12:00 PM'', end_time = ''1:00 PM'',
             date = strftime (add_days today 1)\<rparr>]
       \<and> parse_tasks_directly_y today p =
           [\<lparr>name = [], start_time = ''12:00 PM'', end_time = ''1:00 PM'',
             date = strftime (add_days today 1)\<rparr>]"
  using assms
  by (simp add: parse_tasks_directly_def parse_tasks_directly_y_def Let_def
        pattern_tasks_blank generic_task_blank parse_date_blank)

theorem blank_prompt_generic_task_witness:
  "parse_tasks_directly \<lparr>year = 2025, month = 6, day = 10\<rparr> [] =
     [\<lparr>name = [], start_time = ''12:00 PM'', end_time = ''1:00 PM'', date = ''2025-06-11''\<rparr>]
   \<and> parse_tasks_directly_y \<lparr>year = 2025, month = 6, day = 10\<rparr> ''   '' =
     [\<lparr>name = [], start_time = ''12:00 PM'', end_time = ''1:00 PM'', date = ''2025-06-11''\<rparr>]"
proof -
  let ?t = "\<lparr>year = 2025, month = 6, day = 10\<rparr>"
  have b: "list_all is_space []" "list_all is_space ''   ''" by (simp_all add: is_space_def)
  have d: "strftime (next_day ?t) = ''2025-06-11''" by code_simp
  show ?thesis
    using blank_prompt_generic_task [OF b(1), of ?t] blank_prompt_generic_task [OF b(2), of ?t]
    by (simp add: d)
qed

end
